theory Spec2Isabelle
  imports Complex_Main
begin

section \<open>JavaScript values used by the hooks\<close>

text \<open>
  The two hooks \<^verbatim>\<open>useSender\<close> (src/web-app/src/hooks/useSender.ts) and
  \<^verbatim>\<open>useReceiver\<close> (src/unnamed/part_000) keep their state in React state cells and
  change it from event handlers. Each handler is embedded as a function from the hook state
  to the new hook state; what a handler needs from outside (the clock, the outcome of an
  engine command) is a parameter, and what it does to the outside (engine commands, the
  analytics call) is returned as a list of effects. Console logging is left out, and so
  is \<^verbatim>\<open>copyTicket\<close>, which touches only the clipboard, the \<^verbatim>\<open>copySuccess\<close> cell and
  the alert.

  A handler function is one run of one listener. Where events are put in a sequence, each
  is taken to be handled by the listener that the effect installed last, with React's
  render and effects run before the next event; how many listeners the event system holds
  for an event is not part of the hook state. The sender's asynchronous operations are one
  step each. \<^verbatim>\<open>handleReceive\<close>, whose command is pending while the engine transfers,
  takes the events that arrive in the meantime.

  A JavaScript number is modelled as \<open>NaN\<close>, an infinity or an exact rational: rounding to
  a double and the sign of zero are not modelled. Strings are lists of 8-bit characters.
\<close>

datatype jsnum = NaN | PInf | NInf | Fin rat

text \<open>The comparison \<^verbatim>\<open>a > b\<close>: false as soon as one side is \<open>NaN\<close>.\<close>

fun js_gt :: "jsnum \<Rightarrow> jsnum \<Rightarrow> bool" where
  "js_gt NaN _ = False"
| "js_gt _ NaN = False"
| "js_gt PInf PInf = False"
| "js_gt PInf _ = True"
| "js_gt NInf _ = False"
| "js_gt (Fin a) PInf = False"
| "js_gt (Fin a) NInf = True"
| "js_gt (Fin a) (Fin b) = (b < a)"

text \<open>The comparison \<^verbatim>\<open>a <= b\<close>: also false as soon as one side is \<open>NaN\<close>.\<close>

fun js_le :: "jsnum \<Rightarrow> jsnum \<Rightarrow> bool" where
  "js_le NaN _ = False"
| "js_le _ NaN = False"
| "js_le a b = (\<not> js_gt a b)"

text \<open>The sign of a number that is not \<open>NaN\<close>, as \<open>-1\<close>, \<open>0\<close> or \<open>1\<close>.\<close>

fun js_sign :: "jsnum \<Rightarrow> int" where
  "js_sign NaN = 0"
| "js_sign PInf = 1"
| "js_sign NInf = - 1"
| "js_sign (Fin a) = (if a < 0 then - 1 else if a = 0 then 0 else 1)"

definition signed_inf :: "int \<Rightarrow> jsnum" where
  "signed_inf sg = (if sg < 0 then NInf else PInf)"

text \<open>The product \<^verbatim>\<open>a * b\<close>.\<close>

fun js_mul :: "jsnum \<Rightarrow> jsnum \<Rightarrow> jsnum" where
  "js_mul NaN _ = NaN"
| "js_mul _ NaN = NaN"
| "js_mul (Fin a) (Fin b) = Fin (a * b)"
| "js_mul a b =
     (if js_sign a = 0 \<or> js_sign b = 0 then NaN else signed_inf (js_sign a * js_sign b))"

text \<open>
  The quotient \<^verbatim>\<open>a / b\<close>. Dividing by zero gives an infinity, or \<open>NaN\<close> for
  \<^verbatim>\<open>0 / 0\<close>; the zero divisor counts as positive.
\<close>

fun js_div :: "jsnum \<Rightarrow> jsnum \<Rightarrow> jsnum" where
  "js_div NaN _ = NaN"
| "js_div _ NaN = NaN"
| "js_div (Fin a) (Fin b) =
     (if b = 0 then (if a = 0 then NaN else signed_inf (js_sign (Fin a))) else Fin (a / b))"
| "js_div (Fin a) _ = Fin 0"
| "js_div a (Fin b) = signed_inf (js_sign a * (if b < 0 then - 1 else 1))"
| "js_div _ _ = NaN"

text \<open>\<^verbatim>\<open>Math.round\<close>: the nearest integer, a half rounded up.\<close>

fun js_round :: "jsnum \<Rightarrow> jsnum" where
  "js_round (Fin a) = Fin (of_int \<lfloor>a + 1 / 2\<rfloor>)"
| "js_round a = a"

text \<open>A number is falsy when it is \<open>NaN\<close> or zero; \<^verbatim>\<open>x || d\<close> is then \<open>d\<close>.\<close>

fun js_truthy :: "jsnum \<Rightarrow> bool" where
  "js_truthy NaN = False"
| "js_truthy (Fin a) = (a \<noteq> 0)"
| "js_truthy _ = True"

definition js_or :: "jsnum \<Rightarrow> jsnum \<Rightarrow> jsnum" where
  "js_or x d = (if js_truthy x then x else d)"

text \<open>A string is falsy when it is empty.\<close>

definition str_or :: "string \<Rightarrow> string \<Rightarrow> string" where
  "str_or x d = (if x \<noteq> [] then x else d)"

subsection \<open>String operations\<close>

text \<open>
  \<^verbatim>\<open>s.split(c)\<close> for a one-character separator: the pieces between the separators, one
  more than there are separators, so never an empty array.
\<close>

fun split_on :: "char \<Rightarrow> string \<Rightarrow> string list" where
  "split_on c [] = [[]]"
| "split_on c (x # xs) =
     (if x = c then [] # split_on c xs
      else (case split_on c xs of
              [] \<Rightarrow> [[x]]
            | p # ps \<Rightarrow> (x # p) # ps))"

text \<open>
  White space as \<^verbatim>\<open>trim\<close> and \<^verbatim>\<open>parseInt\<close> see it, among 8-bit characters: tab, line
  feed, vertical tab, form feed, carriage return, space and no-break space.
\<close>

definition is_space :: "char \<Rightarrow> bool" where
  "is_space c = (c \<in> set [CHR 0x09, CHR 0x0A, CHR 0x0B, CHR 0x0C, CHR 0x0D, CHR 0x20, CHR 0xA0])"

definition trim :: "string \<Rightarrow> string" where
  "trim s = rev (dropWhile is_space (rev (dropWhile is_space s)))"

text \<open>The value of a decimal digit; \<open>10\<close> for any other character.\<close>

definition digit_val :: "char \<Rightarrow> nat" where
  "digit_val c = length (takeWhile (\<lambda>d. d \<noteq> c) ''0123456789'')"

definition is_digit :: "char \<Rightarrow> bool" where
  "is_digit c = (digit_val c < 10)"

text \<open>
  \<^verbatim>\<open>parseInt(s, 10)\<close>: leading white space is skipped, one sign is read, then the longest
  run of decimal digits; what follows the digits is ignored. With no digit the result is
  \<open>NaN\<close>. It never throws.
\<close>

definition parseInt :: "string \<Rightarrow> jsnum" where
  "parseInt s =
     (let t = dropWhile is_space s;
          neg = (t \<noteq> [] \<and> hd t = CHR ''-'');
          u = (if t \<noteq> [] \<and> (hd t = CHR ''-'' \<or> hd t = CHR ''+'') then tl t else t);
          z = takeWhile is_digit u;
          n = int (foldl (\<lambda>a d. 10 * a + digit_val d) 0 z)
      in if z = [] then NaN else Fin (of_int (if neg then - n else n)))"

text \<open>The decimal text of a natural number, as a template literal prints a length.\<close>

fun show_nat :: "nat \<Rightarrow> string" where
  "show_nat n =
     (if n < 10 then [''0123456789'' ! n]
      else show_nat (n div 10) @ [''0123456789'' ! (n mod 10)])"

declare show_nat.simps [simp del]


section \<open>Data model\<close>

text \<open>
  The object types of the hooks. Fields that several objects share sit in a parent record,
  so that every field keeps the name it has in the source.
\<close>

record AlertDialogState =
  isOpen :: bool
  title :: string
  description :: string
  type :: string

record Progress =
  percentage :: jsnum

record TransferProgress = Progress +
  bytesTransferred :: jsnum
  totalBytes :: jsnum
  speedBps :: jsnum

record FileProgress = Progress +
  total :: jsnum

record ImportProgress = FileProgress +
  processed :: jsnum

record ExportProgress = FileProgress +
  current :: jsnum

record TransferMetadata =
  fileName :: string
  fileSize :: jsnum
  duration :: int
  startTime :: int
  endTime :: int
  downloadPath :: "string option"

text \<open>
  The state cells both hooks have. The ticket is \<^verbatim>\<open>string | null\<close> on the sender and
  \<^verbatim>\<open>string\<close> on the receiver, hence the type parameter. Times are the milliseconds of
  \<^verbatim>\<open>Date.now()\<close>.
\<close>

record 't HookState =
  ticket :: 't
  isTransporting :: bool
  isCompleted :: bool
  transferMetadata :: "TransferMetadata option"
  transferProgress :: "TransferProgress option"
  transferStartTime :: "int option"
  alertDialog :: AlertDialogState

record SenderState = "string option HookState" +
  isSharing :: bool
  isImporting :: bool
  selectedPath :: "string option"
  isLoading :: bool
  copySuccess :: bool
  importProgress :: "ImportProgress option"

text \<open>
  The receiver's cells, and two things that live outside them. \<open>timers\<close> holds the firing
  times of the pending \<^verbatim>\<open>setTimeout\<close> callbacks of the receive-resumed handler.
  \<open>listenerSavePath\<close> is the \<^verbatim>\<open>savePath\<close> that the installed event listeners see: the
  listeners are closures made by the effect of lines 89 to 252, which runs again only when
  \<^verbatim>\<open>transferStartTime\<close> or \<^verbatim>\<open>transferProgress\<close> changes (its dependency list, line 252),
  so they read the \<^verbatim>\<open>savePath\<close> of the render that last ran the effect. The three
  references \<^verbatim>\<open>fileNamesRef\<close>, \<^verbatim>\<open>transferProgressRef\<close> and
  \<^verbatim>\<open>transferStartTimeRef\<close> are copied from their cells after every render and are
  identified with the cells.
\<close>

record ReceiverState = "string HookState" +
  isReceiving :: bool
  isExporting :: bool
  savePath :: string
  exportProgress :: "ExportProgress option"
  resumedFrom :: "jsnum option"
  fileNames :: "string list"
  timers :: "int list"
  listenerSavePath :: string

text \<open>The engine commands the hooks invoke, and what a handler does to the outside.\<close>

datatype command =
  Cmd_start_sharing string
| Cmd_stop_sharing
| Cmd_get_file_size string
| Cmd_receive_file string string

datatype effect =
  Invoke command
| TrackDataTransfer jsnum

definition initialAlert :: AlertDialogState where
  "initialAlert = \<lparr>isOpen = False, title = [], description = [], type = ''info''\<rparr>"

definition sender_init :: SenderState where
  "sender_init =
     \<lparr>ticket = None, isTransporting = False, isCompleted = False, transferMetadata = None,
      transferProgress = None, transferStartTime = None, alertDialog = initialAlert,
      isSharing = False, isImporting = False, selectedPath = None, isLoading = False,
      copySuccess = False, importProgress = None\<rparr>"

definition receiver_init :: ReceiverState where
  "receiver_init =
     \<lparr>ticket = [], isTransporting = False, isCompleted = False, transferMetadata = None,
      transferProgress = None, transferStartTime = None, alertDialog = initialAlert,
      isReceiving = False, isExporting = False, savePath = [], exportProgress = None,
      resumedFrom = None, fileNames = [], timers = [], listenerSavePath = []\<rparr>"

section \<open>Operations shared by the two hooks\<close>

definition showAlert ::
  "string \<Rightarrow> string \<Rightarrow> string \<Rightarrow> ('t, 'm) HookState_scheme \<Rightarrow> ('t, 'm) HookState_scheme" where
  "showAlert ttl descr ty s =
     s\<lparr>alertDialog := \<lparr>isOpen = True, title = ttl, description = descr, type = ty\<rparr>\<rparr>"

definition closeAlert :: "('t, 'm) HookState_scheme \<Rightarrow> ('t, 'm) HookState_scheme" where
  "closeAlert s = s\<lparr>alertDialog := (alertDialog s)\<lparr>isOpen := False\<rparr>\<rparr>"

text \<open>
  The object both progress handlers build from the three fields of a payload
  (useSender.ts lines 114 to 127, part_000 lines 125 to 138).
\<close>

definition progress_of_parts :: "string list \<Rightarrow> TransferProgress" where
  "progress_of_parts parts =
     (let bytesTransferred = parseInt (parts ! 0);
          totalBytes = parseInt (parts ! 1);
          speedInt = parseInt (parts ! 2);
          speedBps = js_div speedInt (Fin 1000);
          percentage = (if js_gt totalBytes (Fin 0)
                        then js_mul (js_div bytesTransferred totalBytes) (Fin 100)
                        else Fin 0)
      in \<lparr>percentage = percentage, bytesTransferred = bytesTransferred,
          totalBytes = totalBytes, speedBps = speedBps\<rparr>)"

text \<open>
  \<^verbatim>\<open>transferStartTime ? endTime - transferStartTime : 0\<close> and
  \<^verbatim>\<open>transferStartTime || endTime\<close>: a start time of \<open>null\<close> or \<open>0\<close> is falsy.
\<close>

definition duration_since :: "int option \<Rightarrow> int \<Rightarrow> int" where
  "duration_since start now =
     (case start of None \<Rightarrow> 0 | Some t \<Rightarrow> if t \<noteq> 0 then now - t else 0)"

definition start_or :: "int option \<Rightarrow> int \<Rightarrow> int" where
  "start_or start now =
     (case start of None \<Rightarrow> now | Some t \<Rightarrow> if t \<noteq> 0 then t else now)"

section \<open>The sender hook\<close>

text \<open>
  The listeners of useSender.ts, lines 65 to 171. The dependency list of their effect names
  the two cells the listeners read (\<^verbatim>\<open>transferStartTime\<close> and \<^verbatim>\<open>selectedPath\<close>, line
  187), so they read the current cells.
\<close>

definition on_import_started :: "SenderState \<Rightarrow> SenderState" where
  "on_import_started s = s\<lparr>isImporting := True, importProgress := None\<rparr>"

definition on_import_file_count :: "string \<Rightarrow> SenderState \<Rightarrow> SenderState" where
  "on_import_file_count payload s =
     (let total = parseInt payload
      in s\<lparr>importProgress := Some \<lparr>percentage = Fin 0, total = total, processed = Fin 0\<rparr>\<rparr>)"

definition on_import_progress :: "string \<Rightarrow> SenderState \<Rightarrow> SenderState" where
  "on_import_progress payload s =
     (let parts = split_on CHR '':'' payload
      in if length parts = 3
         then s\<lparr>importProgress :=
                  Some \<lparr>percentage = parseInt (parts ! 2), total = parseInt (parts ! 1),
                        processed = parseInt (parts ! 0)\<rparr>\<rparr>
         else s)"

definition on_import_completed :: "SenderState \<Rightarrow> SenderState" where
  "on_import_completed s = s\<lparr>isImporting := False\<rparr>"

definition on_transfer_started :: "int \<Rightarrow> SenderState \<Rightarrow> SenderState" where
  "on_transfer_started now s =
     s\<lparr>isTransporting := True, isCompleted := False, transferStartTime := Some now,
       transferProgress := None\<rparr>"

definition on_transfer_progress :: "string \<Rightarrow> SenderState \<Rightarrow> SenderState" where
  "on_transfer_progress payload s =
     (let parts = split_on CHR '':'' payload
      in if length parts = 3
         then s\<lparr>transferProgress := Some (progress_of_parts parts)\<rparr>
         else s)"

text \<open>
  The transfer-completed listener (lines 134 to 171). \<open>now\<close> is \<^verbatim>\<open>Date.now()\<close>;
  \<open>sizeResult\<close> is what \<^verbatim>\<open>get_file_size\<close> answers when it is invoked, \<open>Inl\<close> a rejection.
  A selected path that is \<open>null\<close> or the empty string is falsy.
\<close>

definition on_transfer_completed ::
  "int \<Rightarrow> string + jsnum \<Rightarrow> SenderState \<Rightarrow> SenderState \<times> effect list" where
  "on_transfer_completed now sizeResult s =
     (let s1 = s\<lparr>isTransporting := False, isCompleted := True, transferProgress := None\<rparr>;
          dur = duration_since (transferStartTime s) now
      in case selectedPath s of
           None \<Rightarrow> (s1, [])
         | Some path \<Rightarrow>
             if path = [] then (s1, [])
             else
               (let name = str_or (last (split_on CHR ''/'' path)) ''Unknown'';
                    metadata =
                      \<lparr>fileName = name,
                       fileSize = (case sizeResult of Inr n \<Rightarrow> n | Inl err \<Rightarrow> Fin 0),
                       duration = dur,
                       startTime = start_or (transferStartTime s) now,
                       endTime = now,
                       downloadPath = None\<rparr>
                in (s1\<lparr>transferMetadata := Some metadata\<rparr>,
                    [Invoke (Cmd_get_file_size path)])))"

definition handleFileSelect :: "string \<Rightarrow> SenderState \<Rightarrow> SenderState" where
  "handleFileSelect path s = s\<lparr>selectedPath := Some path\<rparr>"

text \<open>
  \<^verbatim>\<open>startSharing\<close> (lines 202 to 223); \<open>res\<close> is the outcome of
  \<^verbatim>\<open>start_sharing\<close>, \<open>Inr\<close> the ticket and \<open>Inl\<close> the text of the error.
\<close>

definition startSharing ::
  "string + string \<Rightarrow> SenderState \<Rightarrow> SenderState \<times> effect list" where
  "startSharing res s =
     (case selectedPath s of
        None \<Rightarrow> (s, [])
      | Some path \<Rightarrow>
          if path = [] then (s, [])
          else
            (let s1 = s\<lparr>isLoading := True\<rparr>;
                 s2 = (case res of
                         Inr result \<Rightarrow> s1\<lparr>ticket := Some result, isSharing := True\<rparr>
                       | Inl err \<Rightarrow>
                           showAlert ''Sharing Failed'' (''Failed to start sharing: '' @ err)
                             ''error'' s1)
             in (s2\<lparr>isLoading := False\<rparr>, [Invoke (Cmd_start_sharing path)])))"

text \<open>
  \<^verbatim>\<open>stopSharing\<close> (lines 225 to 246); \<open>res\<close> is the outcome of \<^verbatim>\<open>stop_sharing\<close>. The
  ten cells are reset after the awaited command, inside the \<^verbatim>\<open>try\<close> block; the
  \<^verbatim>\<open>catch\<close> block only opens the alert.
\<close>

definition stopSharing ::
  "string + unit \<Rightarrow> SenderState \<Rightarrow> SenderState \<times> effect list" where
  "stopSharing res s =
     (case res of
        Inr ok \<Rightarrow>
          (s\<lparr>isSharing := False, isImporting := False, isTransporting := False,
             isCompleted := False, ticket := None, selectedPath := None,
             transferMetadata := None, transferProgress := None, importProgress := None,
             transferStartTime := None\<rparr>,
           [Invoke Cmd_stop_sharing])
      | Inl err \<Rightarrow>
          (showAlert ''Stop Sharing Failed'' (''Failed to stop sharing: '' @ err) ''error'' s,
           [Invoke Cmd_stop_sharing]))"

text \<open>The sender's \<^verbatim>\<open>resetForNewTransfer\<close> (lines 248 to 250) awaits \<^verbatim>\<open>stopSharing\<close>.\<close>

definition sender_resetForNewTransfer ::
  "string + unit \<Rightarrow> SenderState \<Rightarrow> SenderState \<times> effect list" where
  "sender_resetForNewTransfer res s = stopSharing res s"

section \<open>The receiver hook\<close>

text \<open>
  After a handler has set its cells React renders, and the effect of lines 89 to 252
  installs fresh listeners when \<^verbatim>\<open>transferStartTime\<close> or \<^verbatim>\<open>transferProgress\<close> is not
  the value it was. \<open>fresh\<close> says that the handler stored a new progress object, which is
  never the object stored before. The eight registrations of an effect run are taken to
  have resolved before the effect runs again; the cleanup (lines 242 to 251) removes only
  those that have, so that otherwise older listeners stay registered next to the new ones.
\<close>

definition after_render :: "bool \<Rightarrow> ReceiverState \<Rightarrow> ReceiverState \<Rightarrow> ReceiverState" where
  "after_render fresh old new =
     (if fresh \<or> transferStartTime new \<noteq> transferStartTime old
         \<or> transferProgress new \<noteq> transferProgress old
      then new\<lparr>listenerSavePath := savePath new\<rparr>
      else new)"

text \<open>
  The display name the receive-completed listener derives from the retained file names
  (part_000 lines 202 to 218).
\<close>

definition displayName :: "string list \<Rightarrow> string" where
  "displayName currentFileNames =
     (if length currentFileNames > 0
      then
        (if length currentFileNames = 1
         then (let fullPath = currentFileNames ! 0
               in str_or (last (split_on CHR ''/'' fullPath)) fullPath)
         else (let firstPath = currentFileNames ! 0;
                   pathParts = split_on CHR ''/'' firstPath
               in if length pathParts > 1
                  then str_or (pathParts ! 0) (show_nat (length currentFileNames) @ '' files'')
                  else show_nat (length currentFileNames) @ '' files''))
      else ''Downloaded File'')"

definition on_receive_started :: "int \<Rightarrow> ReceiverState \<Rightarrow> ReceiverState" where
  "on_receive_started now s =
     after_render False s
       (s\<lparr>isTransporting := True, isCompleted := False, transferStartTime := Some now,
          transferProgress := None\<rparr>)"

text \<open>
  The receive-resumed listener (lines 108 to 117) at time \<open>now\<close>: it sets the cell and
  starts a timer of 5000 ms. No timer is ever cancelled.
\<close>

definition on_receive_resumed :: "int \<Rightarrow> string \<Rightarrow> ReceiverState \<Rightarrow> ReceiverState" where
  "on_receive_resumed now payload s =
     (let localSize = parseInt payload
      in s\<lparr>resumedFrom := Some localSize, timers := timers s @ [now + 5000]\<rparr>)"

text \<open>
  The clock reaches \<open>now\<close>: every timer due by then fires, and each firing runs
  \<^verbatim>\<open>setResumedFrom(null)\<close>.
\<close>

definition run_timers :: "int \<Rightarrow> ReceiverState \<Rightarrow> ReceiverState" where
  "run_timers now s =
     (if list_ex (\<lambda>d. d \<le> now) (timers s)
      then s\<lparr>resumedFrom := None, timers := filter (\<lambda>d. now < d) (timers s)\<rparr>
      else s)"

definition on_receive_progress :: "string \<Rightarrow> ReceiverState \<Rightarrow> ReceiverState" where
  "on_receive_progress payload s =
     (let parts = split_on CHR '':'' payload
      in if length parts = 3
         then after_render True s (s\<lparr>transferProgress := Some (progress_of_parts parts)\<rparr>)
         else s)"

text \<open>
  The receive-file-names listener (lines 145 to 156). \<open>JSON_parse\<close> stands for
  \<^verbatim>\<open>JSON.parse\<close> on payloads that are arrays of strings: \<open>None\<close> when it throws.
\<close>

definition on_receive_file_names ::
  "(string \<Rightarrow> string list option) \<Rightarrow> string \<Rightarrow> ReceiverState \<Rightarrow> ReceiverState" where
  "on_receive_file_names JSON_parse payload s =
     (case JSON_parse payload of
        Some names \<Rightarrow> s\<lparr>fileNames := names\<rparr>
      | None \<Rightarrow> s)"

definition on_export_started :: "string \<Rightarrow> ReceiverState \<Rightarrow> ReceiverState" where
  "on_export_started payload s =
     (let total = parseInt payload
      in s\<lparr>isExporting := True,
           exportProgress := Some \<lparr>percentage = Fin 0, total = total, current = Fin 0\<rparr>\<rparr>)"

definition on_export_progress :: "string \<Rightarrow> ReceiverState \<Rightarrow> ReceiverState" where
  "on_export_progress payload s =
     (let parts = split_on CHR '':'' payload
      in if length parts = 3
         then s\<lparr>exportProgress :=
                  Some \<lparr>percentage = parseInt (parts ! 2), total = parseInt (parts ! 1),
                        current = parseInt (parts ! 0)\<rparr>\<rparr>
         else s)"

definition on_export_completed :: "ReceiverState \<Rightarrow> ReceiverState" where
  "on_export_completed s = s\<lparr>isExporting := False, exportProgress := None\<rparr>"

text \<open>
  The receive-completed listener (lines 192 to 235) at time \<open>now\<close>. The metadata is built
  from the progress and file names of the references and from the \<^verbatim>\<open>savePath\<close> of the
  listener's closure; \<^verbatim>\<open>trackDataTransfer\<close> is called once with the file size.
\<close>

definition on_receive_completed :: "int \<Rightarrow> ReceiverState \<Rightarrow> ReceiverState \<times> effect list" where
  "on_receive_completed now s =
     (let dur = duration_since (transferStartTime s) now;
          metadata =
            \<lparr>fileName = displayName (fileNames s),
             fileSize = (case transferProgress s of
                           None \<Rightarrow> Fin 0
                         | Some p \<Rightarrow> js_or (totalBytes p) (Fin 0)),
             duration = dur,
             startTime = start_or (transferStartTime s) now,
             endTime = now,
             downloadPath = Some (listenerSavePath s)\<rparr>
      in (after_render False s
            (s\<lparr>isTransporting := False, isCompleted := True, transferProgress := None,
               transferMetadata := Some metadata\<rparr>),
          [TrackDataTransfer (fileSize metadata)]))"

definition handleTicketChange :: "string \<Rightarrow> ReceiverState \<Rightarrow> ReceiverState" where
  "handleTicketChange newTicket s = s\<lparr>ticket := newTicket\<rparr>"

text \<open>
  The save path is set when \<^verbatim>\<open>downloadDir\<close> answers (lines 74 to 87; \<open>None\<close> when it
  fails) and by the folder dialog (lines 267 to 285; \<open>Inl\<close> a failure, \<open>Inr None\<close> a
  cancelled dialog). Neither touches a dependency of the listeners' effect.
\<close>

definition initializeSavePath :: "string option \<Rightarrow> ReceiverState \<Rightarrow> ReceiverState" where
  "initializeSavePath downloadsPath s =
     (case downloadsPath of Some p \<Rightarrow> s\<lparr>savePath := p\<rparr> | None \<Rightarrow> s\<lparr>savePath := []\<rparr>)"

definition handleBrowseFolder :: "string + string option \<Rightarrow> ReceiverState \<Rightarrow> ReceiverState" where
  "handleBrowseFolder res s =
     (case res of
        Inr (Some selected) \<Rightarrow> if selected \<noteq> [] then s\<lparr>savePath := selected\<rparr> else s
      | Inr None \<Rightarrow> s
      | Inl err \<Rightarrow>
          showAlert ''Folder Dialog Failed'' (''Failed to open folder dialog: '' @ err)
            ''error'' s)"

text \<open>
  \<^verbatim>\<open>handleReceive\<close> (lines 287 to 322). \<open>handleReceive_try\<close> is what runs before the
  command is awaited, \<open>handleReceive_catch\<close> is the \<^verbatim>\<open>catch\<close> block; after a command
  that succeeds nothing more is set. The command stays pending while the engine works, and
  the hook handles the events that arrive in the meantime: the \<^verbatim>\<open>catch\<close> block runs on
  the state these events have left.
\<close>

definition handleReceive_try :: "ReceiverState \<Rightarrow> ReceiverState" where
  "handleReceive_try s =
     after_render False s
       (s\<lparr>isReceiving := True, isTransporting := False, isExporting := False,
          isCompleted := False, transferMetadata := None, transferProgress := None,
          exportProgress := None, resumedFrom := None, transferStartTime := None\<rparr>)"

definition handleReceive_catch :: "string \<Rightarrow> ReceiverState \<Rightarrow> ReceiverState" where
  "handleReceive_catch err s =
     (showAlert ''Receive Failed'' (''Failed to receive file: '' @ err) ''error'' s)
       \<lparr>isReceiving := False, isTransporting := False, isExporting := False,
        isCompleted := False\<rparr>"

text \<open>
  What can happen while a command is pending: one of the eight events of the receiver,
  with its payload and, where the handler reads the clock, its time; or the clock reaching
  a time at which timers fire.
\<close>

datatype receiver_event =
  Receive_started int
| Receive_resumed int string
| Receive_progress string
| Receive_file_names string
| Export_started string
| Export_progress string
| Export_completed
| Receive_completed int
| Timers_due int

definition handle_event ::
  "(string \<Rightarrow> string list option) \<Rightarrow> receiver_event \<Rightarrow> ReceiverState
     \<Rightarrow> ReceiverState \<times> effect list" where
  "handle_event JSON_parse e s =
     (case e of
        Receive_started now \<Rightarrow> (on_receive_started now s, [])
      | Receive_resumed now payload \<Rightarrow> (on_receive_resumed now payload s, [])
      | Receive_progress payload \<Rightarrow> (on_receive_progress payload s, [])
      | Receive_file_names payload \<Rightarrow> (on_receive_file_names JSON_parse payload s, [])
      | Export_started payload \<Rightarrow> (on_export_started payload s, [])
      | Export_progress payload \<Rightarrow> (on_export_progress payload s, [])
      | Export_completed \<Rightarrow> (on_export_completed s, [])
      | Receive_completed now \<Rightarrow> on_receive_completed now s
      | Timers_due now \<Rightarrow> (run_timers now s, []))"

fun run_events ::
  "(string \<Rightarrow> string list option) \<Rightarrow> receiver_event list \<Rightarrow> ReceiverState
     \<Rightarrow> ReceiverState \<times> effect list" where
  "run_events JSON_parse [] s = (s, [])"
| "run_events JSON_parse (e # es) s =
     (let first = handle_event JSON_parse e s;
          rest = run_events JSON_parse es (fst first)
      in (fst rest, snd first @ snd rest))"

definition is_completion :: "receiver_event \<Rightarrow> bool" where
  "is_completion e = (case e of Receive_completed now \<Rightarrow> True | _ \<Rightarrow> False)"

text \<open>
  The whole call: \<open>res\<close> is the outcome of \<^verbatim>\<open>receive_file\<close> and \<open>events\<close> is what
  arrives, in order, between the invocation and that outcome.
\<close>

definition handleReceive ::
  "string + unit \<Rightarrow> (string \<Rightarrow> string list option) \<Rightarrow> receiver_event list
     \<Rightarrow> ReceiverState \<Rightarrow> ReceiverState \<times> effect list" where
  "handleReceive res JSON_parse events s =
     (if trim (ticket s) = [] then (s, [])
      else
        (let s1 = handleReceive_try s;
             call = Invoke (Cmd_receive_file (trim (ticket s)) (savePath s));
             pending = run_events JSON_parse events s1
         in case res of
              Inr ok \<Rightarrow> (fst pending, call # snd pending)
            | Inl err \<Rightarrow> (handleReceive_catch err (fst pending), call # snd pending)))"

text \<open>The receiver's \<^verbatim>\<open>resetForNewTransfer\<close> (lines 324 to 336): no engine command.\<close>

definition receiver_resetForNewTransfer :: "ReceiverState \<Rightarrow> ReceiverState" where
  "receiver_resetForNewTransfer s =
     after_render False s
       (s\<lparr>isReceiving := False, isTransporting := False, isExporting := False,
          isCompleted := False, ticket := [], transferMetadata := None,
          transferProgress := None, exportProgress := None, resumedFrom := None,
          transferStartTime := None, fileNames := []\<rparr>)"

section \<open>Analytics\<close>

text \<open>
  \<^verbatim>\<open>trackDataTransfer\<close> (src/unnamed/part_001): with \<^verbatim>\<open>window.goatcounter\<close> present it
  calls \<^verbatim>\<open>count\<close> once; an exception of that call is caught and only logged. The result
  is the list of the events handed to \<^verbatim>\<open>count\<close>.
\<close>

record CountEvent =
  event :: string
  size_bytes :: jsnum
  size_mb :: jsnum

definition trackDataTransfer :: "bool \<Rightarrow> jsnum \<Rightarrow> CountEvent list" where
  "trackDataTransfer goatcounter fileSizeBytes =
     (if goatcounter
      then [\<lparr>event = ''data-transferred'',
             size_bytes = fileSizeBytes,
             size_mb = js_div (js_round (js_mul (js_div fileSizeBytes (Fin (1024 * 1024)))
                                  (Fin 100))) (Fin 100)\<rparr>]
      else [])"

text \<open>The arguments of the \<^verbatim>\<open>trackDataTransfer\<close> calls among the effects of a handler.\<close>

primrec analytics_calls :: "effect list \<Rightarrow> jsnum list" where
  "analytics_calls [] = []"
| "analytics_calls (e # es) =
     (case e of
        TrackDataTransfer n \<Rightarrow> n # analytics_calls es
      | Invoke c \<Rightarrow> analytics_calls es)"

text \<open>The engine commands among the effects of a handler.\<close>

primrec engine_calls :: "effect list \<Rightarrow> command list" where
  "engine_calls [] = []"
| "engine_calls (e # es) =
     (case e of
        Invoke c \<Rightarrow> c # engine_calls es
      | TrackDataTransfer n \<Rightarrow> engine_calls es)"

section \<open>Example runs\<close>

text \<open>
  Scenario A of the specification up to the progress event: a file is selected, sharing
  starts with ticket T1, the transfer starts at time 1000 and one progress event arrives.
\<close>

definition sender_sharing :: SenderState where
  "sender_sharing =
     fst (startSharing (Inr ''T1'') (handleFileSelect ''/tmp/video.mp4'' sender_init))"

definition sender_transferring :: SenderState where
  "sender_transferring =
     on_transfer_progress ''1000000:2000000:500000'' (on_transfer_started 1000 sender_sharing)"

text \<open>
  Scenario B up to the progress event: the downloads directory becomes the save path, the
  ticket T1 is entered, the receive command is issued, the transfer starts at time 1000
  and one progress event arrives.
\<close>

definition receiver_connecting :: ReceiverState where
  "receiver_connecting =
     fst (handleReceive (Inr ()) (\<lambda>p. None) []
            (handleTicketChange ''T1''
               (initializeSavePath (Some ''/home/user/Downloads'') receiver_init)))"

definition receiver_transferring :: ReceiverState where
  "receiver_transferring =
     on_receive_progress ''1500000:2000000:750000'' (on_receive_started 1000 receiver_connecting)"

text \<open>
  Two receive-resumed events, at times 1000 and 4000, the second one inside the window of
  the first.
\<close>

definition receiver_resumed_twice :: ReceiverState where
  "receiver_resumed_twice =
     on_receive_resumed 4000 ''700000''
       (run_timers 4000
          (on_receive_resumed 1000 ''500000'' (on_receive_started 1000 receiver_connecting)))"

text \<open>Scenario B, with another folder chosen in the dialog after the progress event.\<close>

definition receiver_folder_changed :: ReceiverState where
  "receiver_folder_changed =
     handleBrowseFolder (Inr (Some ''/mnt/usb'')) receiver_transferring"

text \<open>
  Scenario B with a receive command that is rejected at the end: the transfer starts, is
  resumed and reports progress while the command is pending, and then the command fails.
\<close>

definition receiver_rejected :: ReceiverState where
  "receiver_rejected =
     fst (handleReceive (Inl ''connection lost'') (\<lambda>p. None)
            [Receive_started 1000, Receive_resumed 1000 ''500000'',
             Receive_progress ''1500000:2000000:750000'']
            (handleTicketChange ''T1''
               (initializeSavePath (Some ''/home/user/Downloads'') receiver_init)))"

section \<open>Properties\<close>

lemmas js_string_defs = parseInt_def is_space_def is_digit_def digit_val_def trim_def str_or_def

lemmas scenario_defs =
  sender_sharing_def sender_transferring_def receiver_connecting_def receiver_transferring_def
  sender_init_def receiver_init_def initialAlert_def

lemmas handler_defs =
  on_transfer_started_def on_transfer_progress_def on_receive_started_def
  on_receive_progress_def progress_of_parts_def after_render_def startSharing_def
  handleFileSelect_def handleReceive_def handleReceive_try_def handleTicketChange_def
  initializeSavePath_def

subsection \<open>Progress events\<close>

text \<open>
  Claim C5. For every transfer-progress and receive-progress event with three fields, both
  hooks store the same progress object. Its percentage is 0 when the total is at most 0
  (so neither NaN nor an infinity), and it is the quotient of the transferred bytes by the
  total, times 100, when the total is positive: nothing clamps it, and more bytes than the
  total give more than 100. A total that is not a number also gives 0, since the guard
  \<^verbatim>\<open>totalBytes > 0\<close> is false for it.
\<close>

theorem progress_percentage:
  assumes "split_on CHR '':'' payload = [a, b, c]"
  shows "\<exists>p. transferProgress (on_transfer_progress payload s) = Some p
           \<and> transferProgress (on_receive_progress payload r) = Some p
           \<and> bytesTransferred p = parseInt a
           \<and> totalBytes p = parseInt b
           \<and> (js_le (totalBytes p) (Fin 0) \<longrightarrow> percentage p = Fin 0)
           \<and> (totalBytes p = NaN \<longrightarrow> percentage p = Fin 0)
           \<and> (js_gt (totalBytes p) (Fin 0) \<longrightarrow>
                 percentage p = js_mul (js_div (bytesTransferred p) (totalBytes p)) (Fin 100))
           \<and> (\<forall>x y. bytesTransferred p = Fin x \<and> totalBytes p = Fin y \<and> 0 < y \<longrightarrow>
                 percentage p = Fin (x / y * 100) \<and> (y < x \<longrightarrow> 100 < x / y * 100))"
proof -
  let ?p = "progress_of_parts [a, b, c]"
  have s: "transferProgress (on_transfer_progress payload s) = Some ?p"
    using assms by (simp add: on_transfer_progress_def)
  have r: "transferProgress (on_receive_progress payload r) = Some ?p"
    using assms by (simp add: on_receive_progress_def after_render_def)
  have bt: "bytesTransferred ?p = parseInt a" and tb: "totalBytes ?p = parseInt b"
    by (simp_all add: progress_of_parts_def Let_def)
  have pc: "percentage ?p =
              (if js_gt (parseInt b) (Fin 0)
               then js_mul (js_div (parseInt a) (parseInt b)) (Fin 100) else Fin 0)"
    by (simp add: progress_of_parts_def Let_def)
  have le: "js_le (parseInt b) (Fin 0) \<longrightarrow> percentage ?p = Fin 0"
    unfolding pc by (cases "parseInt b") simp_all
  have nan: "parseInt b = NaN \<longrightarrow> percentage ?p = Fin 0"
    unfolding pc by simp
  have gt: "js_gt (parseInt b) (Fin 0) \<longrightarrow>
              percentage ?p = js_mul (js_div (parseInt a) (parseInt b)) (Fin 100)"
    unfolding pc by simp
  have fin: "\<forall>x y. parseInt a = Fin x \<and> parseInt b = Fin y \<and> 0 < y \<longrightarrow>
               percentage ?p = Fin (x / y * 100) \<and> (y < x \<longrightarrow> 100 < x / y * 100)"
    unfolding pc by (auto simp: field_simps)
  show ?thesis
    using s r bt tb le nan gt fin by (intro exI [of _ ?p]) simp
qed

theorem progress_percentage_witness:
  "split_on CHR '':'' ''300:200:1000'' = [''300'', ''200'', ''1000'']
   \<and> transferProgress (on_transfer_progress ''300:200:1000'' sender_transferring) =
       Some \<lparr>percentage = Fin 150, bytesTransferred = Fin 300, totalBytes = Fin 200,
             speedBps = Fin 1\<rparr>
   \<and> transferProgress (on_receive_progress ''300:200:1000'' receiver_transferring) =
       Some \<lparr>percentage = Fin 150, bytesTransferred = Fin 300, totalBytes = Fin 200,
             speedBps = Fin 1\<rparr>
   \<and> split_on CHR '':'' ''7:0:1000'' = [''7'', ''0'', ''1000'']
   \<and> transferProgress (on_transfer_progress ''7:0:1000'' sender_transferring) =
       Some \<lparr>percentage = Fin 0, bytesTransferred = Fin 7, totalBytes = Fin 0,
             speedBps = Fin 1\<rparr>
   \<and> transferProgress (on_receive_progress ''7:0:1000'' receiver_transferring) =
       Some \<lparr>percentage = Fin 0, bytesTransferred = Fin 7, totalBytes = Fin 0,
             speedBps = Fin 1\<rparr>"
  using progress_percentage [of "''300:200:1000''" "''300''" "''200''" "''1000''"
      sender_transferring receiver_transferring]
    progress_percentage [of "''7:0:1000''" "''7''" "''0''" "''1000''"
      sender_transferring receiver_transferring]
  by (simp add: on_transfer_progress_def on_receive_progress_def progress_of_parts_def
      after_render_def js_string_defs Let_def)

text \<open>
  Claim C6. A transfer-progress or receive-progress event whose payload does not split at
  the colons into exactly three fields changes nothing: the hook state after the handler,
  and with it the progress object, is the state before.
\<close>

theorem malformed_progress_dropped:
  assumes "length (split_on CHR '':'' payload) \<noteq> 3"
  shows "on_transfer_progress payload s = s \<and> on_receive_progress payload r = r"
  using assms by (simp add: on_transfer_progress_def on_receive_progress_def)

theorem malformed_progress_dropped_witness:
  "length (split_on CHR '':'' ''12:34'') \<noteq> 3
   \<and> on_transfer_progress ''12:34'' sender_transferring = sender_transferring
   \<and> on_receive_progress ''12:34'' receiver_transferring = receiver_transferring
   \<and> transferProgress sender_transferring =
       Some \<lparr>percentage = Fin 50, bytesTransferred = Fin 1000000, totalBytes = Fin 2000000,
             speedBps = Fin 500\<rparr>"
  using malformed_progress_dropped [of "''12:34''" sender_transferring receiver_transferring]
  by (simp add: scenario_defs handler_defs js_string_defs Let_def)

text \<open>
  The other payloads that the handlers drop: an import-progress or export-progress payload
  that does not have three fields, and a receive-file-names payload on which
  \<^verbatim>\<open>JSON.parse\<close> throws. The state is left as it was.
\<close>

theorem malformed_events_dropped:
  "(length (split_on CHR '':'' payload) \<noteq> 3 \<longrightarrow>
      on_import_progress payload s = s \<and> on_export_progress payload r = r)
   \<and> (JSON_parse payload = None \<longrightarrow> on_receive_file_names JSON_parse payload r = r)"
  by (simp add: on_import_progress_def on_export_progress_def on_receive_file_names_def)

theorem malformed_events_dropped_witness:
  "length (split_on CHR '':'' ''12:34'') \<noteq> 3
   \<and> on_import_progress ''12:34'' sender_transferring = sender_transferring
   \<and> on_export_progress ''12:34'' receiver_transferring = receiver_transferring
   \<and> on_receive_file_names (\<lambda>p. None) ''12:34'' receiver_transferring = receiver_transferring"
  using malformed_events_dropped
    [of "''12:34''" sender_transferring receiver_transferring "\<lambda>p. None"]
  by simp

subsection \<open>Completion on the sender\<close>

text \<open>
  Claim C10. When transfer-completed arrives while no path is selected, the sender becomes
  completed and stops transporting, the progress is cleared, the metadata cell keeps the
  value it had, and no engine command (so no file-size query) is issued.
\<close>

theorem transfer_completed_without_path:
  assumes "selectedPath s = None"
  shows "on_transfer_completed now sizeResult s =
           (s\<lparr>isTransporting := False, isCompleted := True, transferProgress := None\<rparr>, [])
         \<and> isCompleted (fst (on_transfer_completed now sizeResult s))
         \<and> \<not> isTransporting (fst (on_transfer_completed now sizeResult s))
         \<and> transferProgress (fst (on_transfer_completed now sizeResult s)) = None
         \<and> transferMetadata (fst (on_transfer_completed now sizeResult s)) = transferMetadata s
         \<and> snd (on_transfer_completed now sizeResult s) = []"
  using assms by (simp add: on_transfer_completed_def)

theorem transfer_completed_without_path_witness:
  "selectedPath (on_transfer_started 1000 sender_init) = None
   \<and> isCompleted (fst (on_transfer_completed 9000 (Inr (Fin 5)) (on_transfer_started 1000 sender_init)))
   \<and> transferMetadata (fst (on_transfer_completed 9000 (Inr (Fin 5)) (on_transfer_started 1000 sender_init)))
       = None
   \<and> snd (on_transfer_completed 9000 (Inr (Fin 5)) (on_transfer_started 1000 sender_init)) = []"
  using transfer_completed_without_path
    [of "on_transfer_started 1000 sender_init" 9000 "Inr (Fin 5)"]
  by (simp add: on_transfer_started_def sender_init_def)

text \<open>
  Scenario A of the specification: with \<open>/tmp/video.mp4\<close> selected and a file size of
  2000000 answered by the engine, the metadata names \<open>video.mp4\<close> with that size. When
  the file-size query is rejected the session completes all the same, with size 0.
\<close>

theorem scenario_A_metadata:
  "fst (on_transfer_completed 9000 (Inr (Fin 2000000)) sender_transferring) =
     sender_transferring
       \<lparr>isTransporting := False, isCompleted := True, transferProgress := None,
        transferMetadata :=
          Some \<lparr>fileName = ''video.mp4'', fileSize = Fin 2000000, duration = 8000,
                startTime = 1000, endTime = 9000, downloadPath = None\<rparr>\<rparr>
   \<and> fst (on_transfer_completed 9000 (Inl ''no such file'') sender_transferring) =
     sender_transferring
       \<lparr>isTransporting := False, isCompleted := True, transferProgress := None,
        transferMetadata :=
          Some \<lparr>fileName = ''video.mp4'', fileSize = Fin 0, duration = 8000,
                startTime = 1000, endTime = 9000, downloadPath = None\<rparr>\<rparr>"
  by (simp add: on_transfer_completed_def duration_since_def start_or_def scenario_defs
      handler_defs js_string_defs Let_def)

subsection \<open>Payloads that are not numbers\<close>

text \<open>
  Claim C7. A lifecycle event with a malformed payload is to be dropped without any change
  of state. The code does not do so for text that is not a number: \<^verbatim>\<open>parseInt\<close> gives
  \<open>NaN\<close> instead of throwing, so the \<^verbatim>\<open>catch\<close> blocks never run. export-started with
  the payload \<open>abc\<close> switches \<open>isExporting\<close> on and stores a total of \<open>NaN\<close>;
  import-file-count stores a total of \<open>NaN\<close>; receive-resumed stores \<open>NaN\<close>.
\<close>

theorem non_numeric_count_is_stored:
  "parseInt ''abc'' = NaN
   \<and> on_export_started ''abc'' receiver_transferring =
       receiver_transferring
         \<lparr>isExporting := True,
          exportProgress := Some \<lparr>percentage = Fin 0, total = NaN, current = Fin 0\<rparr>\<rparr>
   \<and> on_export_started ''abc'' receiver_transferring \<noteq> receiver_transferring
   \<and> on_import_file_count ''abc'' sender_sharing =
       sender_sharing
         \<lparr>importProgress := Some \<lparr>percentage = Fin 0, total = NaN, processed = Fin 0\<rparr>\<rparr>
   \<and> on_import_file_count ''abc'' sender_sharing \<noteq> sender_sharing
   \<and> resumedFrom (on_receive_resumed 1000 ''abc'' receiver_transferring) = Some NaN"
  by (simp add: on_export_started_def on_import_file_count_def on_receive_resumed_def
      scenario_defs handler_defs js_string_defs Let_def)

subsection \<open>The display name\<close>

lemma split_on_not_Nil: "split_on c s \<noteq> []"
  by (induction s) (auto split: list.splits)

lemma hd_split_on: "hd (split_on c s) = takeWhile (\<lambda>x. x \<noteq> c) s"
  by (induction s) (auto split: list.splits simp: split_on_not_Nil)

lemma length_split_on: "length (split_on c s) = Suc (length (filter (\<lambda>x. x = c) s))"
  by (induction s) (auto split: list.splits simp: split_on_not_Nil)

lemma split_on_many: "1 < length (split_on c s) \<longleftrightarrow> c \<in> set s"
  by (simp add: length_split_on filter_empty_conv)

lemma nth0_split_on: "split_on c s ! 0 = takeWhile (\<lambda>x. x \<noteq> c) s"
  using hd_split_on [of c s] split_on_not_Nil [of c s] by (simp add: hd_conv_nth)

text \<open>
  Claim C2, as amended. No file name gives the fallback label. One path gives its last
  segment, or the whole path when that segment is empty. Two or more paths give the first
  segment of the first path when that path has a slash and does not begin with one, and
  the number of paths followed by \<open>files\<close> otherwise; the other paths are not looked at.
\<close>

theorem displayName_cases:
  "displayName [] = ''Downloaded File''
   \<and> displayName [p] =
       (if last (split_on CHR ''/'' p) \<noteq> [] then last (split_on CHR ''/'' p) else p)
   \<and> (2 \<le> length ps \<longrightarrow>
        displayName ps =
          (if CHR ''/'' \<in> set (hd ps) \<and> takeWhile (\<lambda>x. x \<noteq> CHR ''/'') (hd ps) \<noteq> []
           then takeWhile (\<lambda>x. x \<noteq> CHR ''/'') (hd ps)
           else show_nat (length ps) @ '' files''))"
proof -
  have one: "displayName [] = ''Downloaded File''"
    by (simp add: displayName_def)
  have two: "displayName [p] =
       (if last (split_on CHR ''/'' p) \<noteq> [] then last (split_on CHR ''/'' p) else p)"
    by (simp add: displayName_def str_or_def)
  have three: "displayName ps =
          (if CHR ''/'' \<in> set (hd ps) \<and> takeWhile (\<lambda>x. x \<noteq> CHR ''/'') (hd ps) \<noteq> []
           then takeWhile (\<lambda>x. x \<noteq> CHR ''/'') (hd ps)
           else show_nat (length ps) @ '' files'')" if "2 \<le> length ps"
  proof -
    from that obtain p q rest where ps: "ps = p # q # rest"
      by (cases ps; cases "tl ps") auto
    have many: "Suc 0 < length (split_on CHR ''/'' p) \<longleftrightarrow> CHR ''/'' \<in> set p"
      using split_on_many [of "CHR ''/''" p] by simp
    show ?thesis
      unfolding ps by (simp add: displayName_def Let_def str_or_def many nth0_split_on)
  qed
  show ?thesis using one two three by blast
qed

theorem displayName_cases_witness:
  "displayName [''a/b/file.txt''] = ''file.txt''
   \<and> 2 \<le> length [''shared/x.txt'', ''shared/y.txt'']
   \<and> displayName [''shared/x.txt'', ''shared/y.txt''] = ''shared''
   \<and> displayName [''x.txt'', ''y.txt''] = ''2 files''"
  using displayName_cases [of "''a/b/file.txt''" "[''shared/x.txt'', ''shared/y.txt'']"]
    displayName_cases [of "''a/b/file.txt''" "[''x.txt'', ''y.txt'']"]
  by (simp add: show_nat.simps)

text \<open>
  Claim C2 as stated fails. The two paths \<open>a/x.txt\<close> and \<open>b/y.txt\<close> have different first
  segments, and the display name is \<open>a\<close>, not \<open>2 files\<close>. The single path \<open>dir/\<close> has
  an empty last segment, and the display name is the whole path.
\<close>

theorem displayName_counterexample:
  "displayName [''a/x.txt'', ''b/y.txt''] = ''a''
   \<and> hd (split_on CHR ''/'' ''a/x.txt'') \<noteq> hd (split_on CHR ''/'' ''b/y.txt'')
   \<and> displayName [''a/x.txt'', ''b/y.txt''] \<noteq> ''2 files''
   \<and> displayName [''dir/''] = ''dir/''
   \<and> last (split_on CHR ''/'' ''dir/'') = []"
  by (simp add: displayName_def str_or_def)

subsection \<open>Reset\<close>

text \<open>
  Claim C1, as amended. When \<^verbatim>\<open>stop_sharing\<close> succeeds, the sender's \<^verbatim>\<open>stopSharing\<close>
  puts the four phase flags, the ticket, the selected path, the metadata, both progress
  objects and the start time back to their initial values. When the command fails, it
  only opens an alert and every other cell keeps its value. The command is invoked either
  way. The receiver's \<^verbatim>\<open>resetForNewTransfer\<close> invokes no command and always puts the
  flags, the ticket, the file names, the metadata, both progress objects, the resume
  indicator and the start time back to their initial values; the alert and the save path
  stay.
\<close>

theorem reset_clears_session:
  "fst (stopSharing (Inr ()) s) =
     s\<lparr>isSharing := False, isImporting := False, isTransporting := False,
       isCompleted := False, ticket := ticket sender_init,
       selectedPath := selectedPath sender_init,
       transferMetadata := transferMetadata sender_init,
       transferProgress := transferProgress sender_init,
       importProgress := importProgress sender_init,
       transferStartTime := transferStartTime sender_init\<rparr>
   \<and> sender_resetForNewTransfer res s = stopSharing res s
   \<and> fst (stopSharing (Inl err) s) =
       s\<lparr>alertDialog := \<lparr>isOpen = True, title = ''Stop Sharing Failed'',
                          description = ''Failed to stop sharing: '' @ err,
                          type = ''error''\<rparr>\<rparr>
   \<and> snd (stopSharing res s) = [Invoke Cmd_stop_sharing]
   \<and> ticket (receiver_resetForNewTransfer r) = ticket receiver_init
   \<and> fileNames (receiver_resetForNewTransfer r) = fileNames receiver_init
   \<and> transferMetadata (receiver_resetForNewTransfer r) = transferMetadata receiver_init
   \<and> transferProgress (receiver_resetForNewTransfer r) = transferProgress receiver_init
   \<and> exportProgress (receiver_resetForNewTransfer r) = exportProgress receiver_init
   \<and> resumedFrom (receiver_resetForNewTransfer r) = resumedFrom receiver_init
   \<and> transferStartTime (receiver_resetForNewTransfer r) = transferStartTime receiver_init
   \<and> \<not> isReceiving (receiver_resetForNewTransfer r)
   \<and> \<not> isTransporting (receiver_resetForNewTransfer r)
   \<and> \<not> isExporting (receiver_resetForNewTransfer r)
   \<and> \<not> isCompleted (receiver_resetForNewTransfer r)
   \<and> alertDialog (receiver_resetForNewTransfer r) = alertDialog r
   \<and> savePath (receiver_resetForNewTransfer r) = savePath r"
  by (cases res)
    (simp_all add: stopSharing_def sender_resetForNewTransfer_def
      receiver_resetForNewTransfer_def showAlert_def after_render_def sender_init_def
      receiver_init_def)

theorem reset_clears_session_witness:
  "ticket (fst (stopSharing (Inr ()) sender_transferring)) = None
   \<and> selectedPath (fst (stopSharing (Inr ()) sender_transferring)) = None
   \<and> transferProgress (fst (stopSharing (Inr ()) sender_transferring)) = None
   \<and> ticket (receiver_resetForNewTransfer receiver_transferring) = []
   \<and> transferProgress (receiver_resetForNewTransfer receiver_transferring) = None"
  using reset_clears_session [of sender_transferring "Inr ()" "[]" receiver_transferring]
  by (simp add: sender_init_def receiver_init_def)

text \<open>
  Claim C1 as stated fails on the sender. In the middle of a transfer, a \<^verbatim>\<open>stopSharing\<close>
  whose command is rejected leaves the ticket, the selected path and the progress as they
  were; their initial values are \<open>null\<close>.
\<close>

theorem stopSharing_failure_counterexample:
  "fst (stopSharing (Inl ''engine error'') sender_transferring) =
     showAlert ''Stop Sharing Failed'' ''Failed to stop sharing: engine error'' ''error''
       sender_transferring
   \<and> ticket (fst (stopSharing (Inl ''engine error'') sender_transferring)) = Some ''T1''
   \<and> selectedPath (fst (stopSharing (Inl ''engine error'') sender_transferring)) =
       Some ''/tmp/video.mp4''
   \<and> transferProgress (fst (stopSharing (Inl ''engine error'') sender_transferring)) =
       Some \<lparr>percentage = Fin 50, bytesTransferred = Fin 1000000, totalBytes = Fin 2000000,
             speedBps = Fin 500\<rparr>
   \<and> ticket sender_init = None \<and> selectedPath sender_init = None
   \<and> transferProgress sender_init = None"
  by (simp add: stopSharing_def showAlert_def scenario_defs handler_defs js_string_defs Let_def)

subsection \<open>The resume indicator\<close>

lemma resumed_then_timers:
  "resumedFrom (run_timers t (on_receive_resumed now payload r)) =
     (if \<forall>d \<in> set (timers r @ [now + 5000]). t < d then Some (parseInt payload) else None)"
proof -
  let ?r' = "on_receive_resumed now payload r"
  have tm: "timers ?r' = timers r @ [now + 5000]"
    and rf: "resumedFrom ?r' = Some (parseInt payload)"
    by (simp_all add: on_receive_resumed_def Let_def)
  have due: "list_ex (\<lambda>d. d \<le> t) (timers ?r') \<longleftrightarrow>
               \<not> (\<forall>d \<in> set (timers r @ [now + 5000]). t < d)"
    unfolding tm list_ex_iff by (meson not_less)
  show ?thesis
    using due rf by (simp add: run_timers_def)
qed

text \<open>
  Claim C3, as amended. A receive-resumed event at time \<open>now\<close> sets the resume indicator
  and adds a timer for \<open>now + 5000\<close> to the pending ones, cancelling none. When the clock
  is at \<open>t\<close> the indicator is still set if \<open>t\<close> is before every pending firing time, and
  it is cleared as soon as one of them is reached. With no older timer pending, the
  indicator is therefore set up to 4999 ms after the event and cleared from 5000 ms on;
  with an older timer pending, it is cleared when that older timer fires.
\<close>

theorem resume_indicator_timers:
  "resumedFrom (on_receive_resumed now payload r) = Some (parseInt payload)
   \<and> timers (on_receive_resumed now payload r) = timers r @ [now + 5000]
   \<and> (\<forall>t. resumedFrom (run_timers t (on_receive_resumed now payload r)) =
            (if \<forall>d \<in> set (timers r @ [now + 5000]). t < d
             then Some (parseInt payload) else None))
   \<and> (timers r = [] \<longrightarrow>
        (\<forall>t. resumedFrom (run_timers t (on_receive_resumed now payload r)) =
              (if t < now + 5000 then Some (parseInt payload) else None)))"
proof -
  have set_cell: "resumedFrom (on_receive_resumed now payload r) = Some (parseInt payload)"
    and new_timer: "timers (on_receive_resumed now payload r) = timers r @ [now + 5000]"
    by (simp_all add: on_receive_resumed_def Let_def)
  have alone: "\<forall>t. resumedFrom (run_timers t (on_receive_resumed now payload r)) =
                 (if t < now + 5000 then Some (parseInt payload) else None)"
    if "timers r = []"
    using that by (simp add: resumed_then_timers)
  show ?thesis
    using set_cell new_timer alone by (simp add: resumed_then_timers)
qed

theorem resume_indicator_timers_witness:
  "timers (on_receive_started 1000 receiver_connecting) = []
   \<and> resumedFrom (run_timers 5999
         (on_receive_resumed 1000 ''500000'' (on_receive_started 1000 receiver_connecting))) =
       Some (Fin 500000)
   \<and> resumedFrom (run_timers 6000
         (on_receive_resumed 1000 ''500000'' (on_receive_started 1000 receiver_connecting))) =
       None"
  using resume_indicator_timers
    [of 1000 "''500000''" "on_receive_started 1000 receiver_connecting"]
  by (simp add: scenario_defs handler_defs js_string_defs Let_def)

text \<open>
  Claim C3 as stated fails. After resume events at times 1000 and 4000 the indicator of
  the second event is cleared at time 6000, when the timer of the first event fires,
  which is before 5 seconds have passed since the second event.
\<close>

theorem resume_window_counterexample:
  "resumedFrom receiver_resumed_twice = Some (Fin 700000)
   \<and> timers receiver_resumed_twice = [6000, 9000]
   \<and> resumedFrom (run_timers 5999 receiver_resumed_twice) = Some (Fin 700000)
   \<and> resumedFrom (run_timers 6000 receiver_resumed_twice) = None
   \<and> (6000 :: int) < 4000 + 5000"
  by (simp add: receiver_resumed_twice_def on_receive_resumed_def run_timers_def scenario_defs
      handler_defs js_string_defs Let_def)

subsection \<open>Analytics at completion\<close>

text \<open>
  Claim C4, as amended. The sender's transfer-completed handler makes no analytics call.
  On the receiver, every run of the receive-completed handler makes exactly one
  \<^verbatim>\<open>trackDataTransfer\<close> call, with the file size of the metadata that run has built
  (the total of the progress object it finds, or 0); the call hands one event carrying
  that size to the analytics client when the client is present, and none when it is
  absent. This is a statement about one run of the handler, in any state: how many
  listeners an event reaches is not stated.
\<close>

theorem analytics_per_role:
  "analytics_calls (snd (on_transfer_completed now sizeResult s)) = []
   \<and> (\<exists>m. transferMetadata (fst (on_receive_completed now r)) = Some m
          \<and> isCompleted (fst (on_receive_completed now r))
          \<and> snd (on_receive_completed now r) = [TrackDataTransfer (fileSize m)]
          \<and> analytics_calls (snd (on_receive_completed now r)) = [fileSize m]
          \<and> fileSize m = (case transferProgress r of
                              None \<Rightarrow> Fin 0
                            | Some p \<Rightarrow> js_or (totalBytes p) (Fin 0)))
   \<and> map size_bytes (trackDataTransfer True n) = [n]
   \<and> map event (trackDataTransfer True n) = [''data-transferred'']
   \<and> trackDataTransfer False n = []"
proof -
  have sender: "analytics_calls (snd (on_transfer_completed now sizeResult s)) = []"
    by (simp add: on_transfer_completed_def Let_def split: option.splits)
  have receiver: "\<exists>m. transferMetadata (fst (on_receive_completed now r)) = Some m
          \<and> isCompleted (fst (on_receive_completed now r))
          \<and> snd (on_receive_completed now r) = [TrackDataTransfer (fileSize m)]
          \<and> analytics_calls (snd (on_receive_completed now r)) = [fileSize m]
          \<and> fileSize m = (case transferProgress r of
                              None \<Rightarrow> Fin 0
                            | Some p \<Rightarrow> js_or (totalBytes p) (Fin 0))"
    by (simp add: on_receive_completed_def after_render_def Let_def)
  show ?thesis
    using sender receiver by (simp add: trackDataTransfer_def)
qed

theorem analytics_per_role_witness:
  "analytics_calls (snd (on_receive_completed 9000 receiver_transferring)) = [Fin 2000000]
   \<and> analytics_calls
        (snd (on_transfer_completed 9000 (Inr (Fin 2000000)) sender_transferring)) = []
   \<and> trackDataTransfer True (Fin 2000000) =
       [\<lparr>event = ''data-transferred'', size_bytes = Fin 2000000,
         size_mb = Fin (191 / 100)\<rparr>]"
  using analytics_per_role
    [of 9000 "Inr (Fin 2000000)" sender_transferring receiver_transferring "Fin 2000000"]
  by (simp add: on_receive_completed_def on_transfer_completed_def trackDataTransfer_def
      scenario_defs handler_defs js_string_defs js_or_def Let_def floor_eq_iff)

text \<open>
  Claim C4 as stated fails on the sender. The transfer-completed handler of Scenario A
  completes the session and asks for the file size, and makes no analytics call.
\<close>

theorem sender_analytics_counterexample:
  "isCompleted (fst (on_transfer_completed 9000 (Inr (Fin 2000000)) sender_transferring))
   \<and> snd (on_transfer_completed 9000 (Inr (Fin 2000000)) sender_transferring) =
       [Invoke (Cmd_get_file_size ''/tmp/video.mp4'')]
   \<and> analytics_calls
        (snd (on_transfer_completed 9000 (Inr (Fin 2000000)) sender_transferring)) = []"
  by (simp add: on_transfer_completed_def scenario_defs handler_defs js_string_defs Let_def)

subsection \<open>Starting a receive\<close>

text \<open>
  The completed flag is switched on by no operation of the receiver other than the
  receive-completed event.
\<close>

lemma completed_only_by_event:
  "\<not> isCompleted (handleReceive_try u)
   \<and> \<not> isCompleted (handleReceive_catch err u)
   \<and> \<not> isCompleted (receiver_resetForNewTransfer u)
   \<and> isCompleted (handleTicketChange t u) = isCompleted u
   \<and> isCompleted (handleBrowseFolder b u) = isCompleted u
   \<and> isCompleted (initializeSavePath d u) = isCompleted u
   \<and> isCompleted (run_timers n u) = isCompleted u
   \<and> \<not> isCompleted (on_receive_started n u)
   \<and> isCompleted (on_receive_resumed n p u) = isCompleted u
   \<and> isCompleted (on_receive_progress p u) = isCompleted u
   \<and> isCompleted (on_receive_file_names J p u) = isCompleted u
   \<and> isCompleted (on_export_started p u) = isCompleted u
   \<and> isCompleted (on_export_progress p u) = isCompleted u
   \<and> isCompleted (on_export_completed u) = isCompleted u"
proof -
  have receive: "\<not> isCompleted (handleReceive_try u)"
    "\<not> isCompleted (handleReceive_catch err u)"
    by (simp_all add: handleReceive_try_def handleReceive_catch_def after_render_def
        showAlert_def)
  have reset: "\<not> isCompleted (receiver_resetForNewTransfer u)"
    by (simp add: receiver_resetForNewTransfer_def after_render_def)
  have controls: "isCompleted (handleTicketChange t u) = isCompleted u"
    "isCompleted (handleBrowseFolder b u) = isCompleted u"
    "isCompleted (initializeSavePath d u) = isCompleted u"
    "isCompleted (run_timers n u) = isCompleted u"
    by (simp_all add: handleTicketChange_def handleBrowseFolder_def initializeSavePath_def
        run_timers_def showAlert_def split: option.splits sum.splits)
  have events: "\<not> isCompleted (on_receive_started n u)"
    "isCompleted (on_receive_resumed n p u) = isCompleted u"
    "isCompleted (on_receive_progress p u) = isCompleted u"
    "isCompleted (on_receive_file_names J p u) = isCompleted u"
    "isCompleted (on_export_started p u) = isCompleted u"
    "isCompleted (on_export_progress p u) = isCompleted u"
    "isCompleted (on_export_completed u) = isCompleted u"
    by (simp_all add: on_receive_started_def on_receive_resumed_def on_receive_progress_def
        on_receive_file_names_def on_export_started_def on_export_progress_def
        on_export_completed_def after_render_def Let_def split: option.splits)
  show ?thesis
    using receive reset controls events by blast
qed

lemma handle_event_not_completed:
  assumes "\<not> is_completion e" and "isCompleted (fst (handle_event J e u))"
  shows "isCompleted u"
proof (cases e)
  case (Receive_started n)
  then show ?thesis
    using assms completed_only_by_event [of u "[]" _ _ _ n] by (simp add: handle_event_def)
next
  case (Receive_resumed n p)
  then show ?thesis
    using assms completed_only_by_event [of u "[]" _ _ _ n p] by (simp add: handle_event_def)
next
  case (Receive_progress p)
  then show ?thesis
    using assms completed_only_by_event [of u "[]" _ _ _ _ p] by (simp add: handle_event_def)
next
  case (Receive_file_names p)
  then show ?thesis
    using assms completed_only_by_event [of u "[]" _ _ _ _ p J] by (simp add: handle_event_def)
next
  case (Export_started p)
  then show ?thesis
    using assms completed_only_by_event [of u "[]" _ _ _ _ p] by (simp add: handle_event_def)
next
  case (Export_progress p)
  then show ?thesis
    using assms completed_only_by_event [of u "[]" _ _ _ _ p] by (simp add: handle_event_def)
next
  case Export_completed
  then show ?thesis
    using assms completed_only_by_event [of u "[]"] by (simp add: handle_event_def)
next
  case (Receive_completed n)
  then show ?thesis
    using assms by (simp add: is_completion_def)
next
  case (Timers_due n)
  then show ?thesis
    using assms completed_only_by_event [of u "[]" _ _ _ n] by (simp add: handle_event_def)
qed

lemma run_events_not_completed:
  assumes "\<forall>e \<in> set evs. \<not> is_completion e" and "isCompleted (fst (run_events J evs u))"
  shows "isCompleted u"
  using assms
proof (induction evs arbitrary: u)
  case Nil
  then show ?case by simp
next
  case (Cons e evs)
  from Cons.prems have "isCompleted (fst (run_events J evs (fst (handle_event J e u))))"
    by (simp add: Let_def)
  with Cons have "isCompleted (fst (handle_event J e u))"
    by simp
  with Cons.prems show ?case
    using handle_event_not_completed [of e J u] by simp
qed

text \<open>The events of the receiver invoke no engine command.\<close>

lemma engine_calls_append: "engine_calls (xs @ ys) = engine_calls xs @ engine_calls ys"
  by (induction xs) (auto split: effect.splits)

lemma handle_event_no_engine_call: "engine_calls (snd (handle_event J e u)) = []"
  by (cases e) (simp_all add: handle_event_def on_receive_completed_def Let_def)

lemma run_events_no_engine_call: "engine_calls (snd (run_events J evs u)) = []"
  by (induction evs arbitrary: u)
    (simp_all add: Let_def engine_calls_append handle_event_no_engine_call)

text \<open>
  Claim C8, as amended. With a ticket that is empty after trimming, \<^verbatim>\<open>handleReceive\<close>
  changes nothing and invokes nothing. Otherwise it sets \<open>isReceiving\<close>, switches the
  other three phase flags off, clears metadata, progress, export progress, resume
  indicator and start time, and invokes \<^verbatim>\<open>receive_file\<close> once, with the trimmed ticket
  and the save path; no other engine command is invoked until the command settles. When
  the command is rejected, the \<^verbatim>\<open>catch\<close> block opens the alert \<open>Receive Failed\<close> and
  switches the four phase flags off, and changes nothing else: the ticket, the save path
  and the retained file names stay, and so does whatever the events that arrived while the
  command was pending have stored in the other cells. When the command succeeds nothing
  more is set, and the hook is completed only if a receive-completed event has arrived.
\<close>

theorem handleReceive_contract:
  "(trim (ticket s) = [] \<longrightarrow> handleReceive res J evs s = (s, []))
   \<and> (trim (ticket s) \<noteq> [] \<longrightarrow>
        snd (handleReceive res J evs s) =
          Invoke (Cmd_receive_file (trim (ticket s)) (savePath s))
            # snd (run_events J evs (handleReceive_try s))
        \<and> engine_calls (snd (handleReceive res J evs s)) =
            [Cmd_receive_file (trim (ticket s)) (savePath s)]
        \<and> fst (handleReceive (Inr ()) J evs s) = fst (run_events J evs (handleReceive_try s))
        \<and> fst (handleReceive (Inl err) J evs s) =
            handleReceive_catch err (fst (run_events J evs (handleReceive_try s)))
        \<and> ((\<forall>e \<in> set evs. \<not> is_completion e) \<longrightarrow>
             \<not> isCompleted (fst (handleReceive res J evs s))))
   \<and> isReceiving (handleReceive_try s)
   \<and> \<not> isTransporting (handleReceive_try s)
   \<and> \<not> isExporting (handleReceive_try s)
   \<and> \<not> isCompleted (handleReceive_try s)
   \<and> transferMetadata (handleReceive_try s) = None
   \<and> transferProgress (handleReceive_try s) = None
   \<and> exportProgress (handleReceive_try s) = None
   \<and> resumedFrom (handleReceive_try s) = None
   \<and> transferStartTime (handleReceive_try s) = None
   \<and> ticket (handleReceive_try s) = ticket s
   \<and> savePath (handleReceive_try s) = savePath s
   \<and> fileNames (handleReceive_try s) = fileNames s
   \<and> alertDialog (handleReceive_try s) = alertDialog s
   \<and> handleReceive_catch err u =
       u\<lparr>alertDialog := \<lparr>isOpen = True, title = ''Receive Failed'',
                          description = ''Failed to receive file: '' @ err,
                          type = ''error''\<rparr>,
         isReceiving := False, isTransporting := False, isExporting := False,
         isCompleted := False\<rparr>
   \<and> ticket (handleReceive_catch err u) = ticket u
   \<and> savePath (handleReceive_catch err u) = savePath u
   \<and> fileNames (handleReceive_catch err u) = fileNames u
   \<and> transferMetadata (handleReceive_catch err u) = transferMetadata u
   \<and> transferProgress (handleReceive_catch err u) = transferProgress u
   \<and> exportProgress (handleReceive_catch err u) = exportProgress u
   \<and> resumedFrom (handleReceive_catch err u) = resumedFrom u
   \<and> transferStartTime (handleReceive_catch err u) = transferStartTime u
   \<and> isCompleted (fst (on_receive_completed now u))"
proof -
  let ?call = "Cmd_receive_file (trim (ticket s)) (savePath s)"
  let ?pending = "run_events J evs (handleReceive_try s)"
  have empty: "handleReceive res J evs s = (s, [])" if "trim (ticket s) = []"
    using that by (simp add: handleReceive_def)
  have effects: "snd (handleReceive res J evs s) = Invoke ?call # snd ?pending"
    if "trim (ticket s) \<noteq> []"
    using that by (cases res) (simp_all add: handleReceive_def Let_def)
  have calls: "engine_calls (snd (handleReceive res J evs s)) = [?call]"
    if "trim (ticket s) \<noteq> []"
    using effects [OF that] by (simp add: run_events_no_engine_call)
  have ok: "fst (handleReceive (Inr ()) J evs s) = fst ?pending"
    and rejected: "fst (handleReceive (Inl err) J evs s) = handleReceive_catch err (fst ?pending)"
    if "trim (ticket s) \<noteq> []"
    using that by (simp_all add: handleReceive_def Let_def)
  have try_flags: "isReceiving (handleReceive_try s)" "\<not> isTransporting (handleReceive_try s)"
    "\<not> isExporting (handleReceive_try s)" "\<not> isCompleted (handleReceive_try s)"
    by (simp_all add: handleReceive_try_def after_render_def)
  have try_cleared: "transferMetadata (handleReceive_try s) = None"
    "transferProgress (handleReceive_try s) = None"
    "exportProgress (handleReceive_try s) = None"
    "resumedFrom (handleReceive_try s) = None"
    "transferStartTime (handleReceive_try s) = None"
    by (simp_all add: handleReceive_try_def after_render_def)
  have try_kept: "ticket (handleReceive_try s) = ticket s"
    "savePath (handleReceive_try s) = savePath s"
    "fileNames (handleReceive_try s) = fileNames s"
    "alertDialog (handleReceive_try s) = alertDialog s"
    by (simp_all add: handleReceive_try_def after_render_def)
  have catch_eq: "handleReceive_catch err u =
       u\<lparr>alertDialog := \<lparr>isOpen = True, title = ''Receive Failed'',
                          description = ''Failed to receive file: '' @ err,
                          type = ''error''\<rparr>,
         isReceiving := False, isTransporting := False, isExporting := False,
         isCompleted := False\<rparr>"
    by (simp add: handleReceive_catch_def showAlert_def)
  have catch_kept: "ticket (handleReceive_catch err u) = ticket u"
    "savePath (handleReceive_catch err u) = savePath u"
    "fileNames (handleReceive_catch err u) = fileNames u"
    "transferMetadata (handleReceive_catch err u) = transferMetadata u"
    "transferProgress (handleReceive_catch err u) = transferProgress u"
    "exportProgress (handleReceive_catch err u) = exportProgress u"
    "resumedFrom (handleReceive_catch err u) = resumedFrom u"
    "transferStartTime (handleReceive_catch err u) = transferStartTime u"
    by (simp_all add: handleReceive_catch_def showAlert_def)
  have not_completed: "\<not> isCompleted (fst (handleReceive res J evs s))"
    if ticket: "trim (ticket s) \<noteq> []" and evs: "\<forall>e \<in> set evs. \<not> is_completion e"
  proof (cases res)
    case (Inl e)
    then show ?thesis
      using ticket by (simp add: handleReceive_def Let_def handleReceive_catch_def)
  next
    case (Inr ok)
    have "\<not> isCompleted (fst ?pending)"
      using run_events_not_completed [OF evs, of J "handleReceive_try s"] try_flags(4)
      by blast
    then show ?thesis
      using ticket Inr by (simp add: handleReceive_def Let_def)
  qed
  have completes: "isCompleted (fst (on_receive_completed now u))"
    by (simp add: on_receive_completed_def after_render_def Let_def)
  have first: "trim (ticket s) = [] \<longrightarrow> handleReceive res J evs s = (s, [])"
    using empty by blast
  have second: "trim (ticket s) \<noteq> [] \<longrightarrow>
        snd (handleReceive res J evs s) = Invoke ?call # snd ?pending
        \<and> engine_calls (snd (handleReceive res J evs s)) = [?call]
        \<and> fst (handleReceive (Inr ()) J evs s) = fst ?pending
        \<and> fst (handleReceive (Inl err) J evs s) = handleReceive_catch err (fst ?pending)
        \<and> ((\<forall>e \<in> set evs. \<not> is_completion e) \<longrightarrow>
             \<not> isCompleted (fst (handleReceive res J evs s)))"
    using effects calls ok rejected not_completed by blast
  show ?thesis
    using first second try_flags try_cleared try_kept catch_eq catch_kept completes
    by (intro conjI) assumption+
qed

theorem handleReceive_contract_witness:
  "trim (ticket receiver_init) = []
   \<and> handleReceive (Inr ()) (\<lambda>p. None) [] receiver_init = (receiver_init, [])
   \<and> trim (ticket (handleTicketChange ''  T1 '' receiver_transferring)) \<noteq> []
   \<and> list_all (\<lambda>e. \<not> is_completion e) [Receive_started 1000, Receive_progress ''5:10:1000'']
   \<and> engine_calls
        (snd (handleReceive (Inl ''boom'') (\<lambda>p. None)
                [Receive_started 1000, Receive_progress ''5:10:1000'']
                (handleTicketChange ''  T1 '' receiver_transferring))) =
       [Cmd_receive_file ''T1'' ''/home/user/Downloads'']
   \<and> \<not> isCompleted
         (fst (handleReceive (Inl ''boom'') (\<lambda>p. None)
                 [Receive_started 1000, Receive_progress ''5:10:1000'']
                 (handleTicketChange ''  T1 '' receiver_transferring)))
   \<and> ticket (handleReceive_catch ''boom'' receiver_transferring) = ''T1''"
  using handleReceive_contract
      [where s = receiver_init and res = "Inr ()" and J = "\<lambda>p. None" and evs = "[]"
         and err = "''boom''" and u = receiver_transferring and now = 9000]
    handleReceive_contract
      [where s = "handleTicketChange ''  T1 '' receiver_transferring" and res = "Inl ''boom''"
         and J = "\<lambda>p. None"
         and evs = "[Receive_started 1000, Receive_progress ''5:10:1000'']"
         and err = "''boom''" and u = receiver_transferring and now = 9000]
  by (simp add: is_completion_def scenario_defs handler_defs js_string_defs Let_def)

text \<open>
  Claim C8 as stated fails. In Scenario B with a command that is rejected after the
  transfer has started, been resumed and reported progress, the alert is open and the four
  flags are off, but the progress, the start time, the resume indicator and the ticket are
  as the events and the user have left them, not at their initial values.
\<close>

theorem handleReceive_rejected_counterexample:
  "alertDialog receiver_rejected =
     \<lparr>isOpen = True, title = ''Receive Failed'',
      description = ''Failed to receive file: connection lost'', type = ''error''\<rparr>
   \<and> \<not> isReceiving receiver_rejected \<and> \<not> isTransporting receiver_rejected
   \<and> \<not> isExporting receiver_rejected \<and> \<not> isCompleted receiver_rejected
   \<and> transferProgress receiver_rejected =
       Some \<lparr>percentage = Fin 75, bytesTransferred = Fin 1500000, totalBytes = Fin 2000000,
             speedBps = Fin 750\<rparr>
   \<and> transferStartTime receiver_rejected = Some 1000
   \<and> resumedFrom receiver_rejected = Some (Fin 500000)
   \<and> ticket receiver_rejected = ''T1''
   \<and> transferProgress receiver_init = None \<and> transferStartTime receiver_init = None
   \<and> resumedFrom receiver_init = None \<and> ticket receiver_init = []"
  by (simp add: receiver_rejected_def handle_event_def handleReceive_catch_def showAlert_def
      on_receive_resumed_def scenario_defs handler_defs js_string_defs Let_def)

subsection \<open>Completion on the receiver\<close>

text \<open>
  What the receive-completed handler does in every state: the hook is completed and no
  longer transporting, the progress is cleared, and the metadata has the display name of
  the retained file names (the fallback label when there are none), the total of the last
  progress object (0 when there is none, or when that total is 0 or not a number) and the
  save path of the listener's closure. After a progress event with three fields that save
  path is the current one.
\<close>

theorem receive_completed_metadata:
  "isCompleted (fst (on_receive_completed now s))
   \<and> \<not> isTransporting (fst (on_receive_completed now s))
   \<and> transferProgress (fst (on_receive_completed now s)) = None
   \<and> transferMetadata (fst (on_receive_completed now s)) =
       Some \<lparr>fileName = displayName (fileNames s),
             fileSize = (case transferProgress s of
                           None \<Rightarrow> Fin 0
                         | Some p \<Rightarrow> if totalBytes p = NaN \<or> totalBytes p = Fin 0 then Fin 0
                                     else totalBytes p),
             duration = duration_since (transferStartTime s) now,
             startTime = start_or (transferStartTime s) now,
             endTime = now,
             downloadPath = Some (listenerSavePath s)\<rparr>
   \<and> (fileNames s = [] \<longrightarrow> displayName (fileNames s) = ''Downloaded File'')
   \<and> (length (split_on CHR '':'' payload) = 3 \<longrightarrow>
        listenerSavePath (on_receive_progress payload s) = savePath s)"
proof -
  have or0: "js_or x (Fin 0) = (if x = NaN \<or> x = Fin 0 then Fin 0 else x)" for x
    by (cases x) (simp_all add: js_or_def)
  show ?thesis
    by (simp add: on_receive_completed_def on_receive_progress_def after_render_def Let_def or0
        displayName_def split: option.splits)
qed

theorem receive_completed_metadata_witness:
  "fileNames receiver_transferring = []
   \<and> length (split_on CHR '':'' ''1500000:2000000:750000'') = 3
   \<and> transferMetadata (fst (on_receive_completed 9000 receiver_transferring)) =
       Some \<lparr>fileName = ''Downloaded File'', fileSize = Fin 2000000, duration = 8000,
             startTime = 1000, endTime = 9000, downloadPath = Some ''/home/user/Downloads''\<rparr>"
  using receive_completed_metadata [of 9000 receiver_transferring "''1500000:2000000:750000''"]
  by (simp add: on_receive_completed_def displayName_def duration_since_def start_or_def
      js_or_def scenario_defs handler_defs js_string_defs Let_def)

text \<open>
  Claim C9. The metadata of receive-completed is to carry the currently configured save
  path. In Scenario B with another folder chosen after the last progress event, the save
  path is \<open>/mnt/usb\<close> and the metadata carries \<open>/home/user/Downloads\<close>: choosing a folder
  does not make the effect install new listeners, and the installed one still holds the
  save path of the render of the last progress event. The other fields are as claimed.
\<close>

theorem receive_completed_stale_save_path:
  "savePath receiver_folder_changed = ''/mnt/usb''
   \<and> transferMetadata (fst (on_receive_completed 9000 receiver_folder_changed)) =
       Some \<lparr>fileName = ''Downloaded File'', fileSize = Fin 2000000, duration = 8000,
             startTime = 1000, endTime = 9000, downloadPath = Some ''/home/user/Downloads''\<rparr>"
  by (simp add: receiver_folder_changed_def handleBrowseFolder_def on_receive_completed_def
      displayName_def duration_since_def start_or_def js_or_def
      scenario_defs handler_defs js_string_defs Let_def)

end
